theory Spec2Isabelle
  imports Main
begin

section \<open>Values of the store module\<close>

text \<open>
  The development follows \<^verbatim>\<open>src/orm/orm-base.js\<close>: the class \<open>Store\<close> with its
  model registry, the through-relationship resolver and the batch operations
  \<open>saveAll\<close> and \<open>deleteAll\<close>.

  A field that holds a string, \<open>null\<close> or \<open>undefined\<close> (a descriptor's \<open>model\<close>
  and \<open>key\<close>, a definition's \<open>table\<close>) is a \<open>jsstr\<close>; \<open>Undefined\<close> is also what
  reading a missing property gives.
\<close>

datatype jsstr = Null | Undefined | Str string

fun truthy_str :: "jsstr \<Rightarrow> bool" where
  "truthy_str Null = False"
| "truthy_str Undefined = False"
| "truthy_str (Str s) = (s \<noteq> [])"

text \<open>A relationship descriptor \<^verbatim>\<open>{ model: ..., key: ... }\<close>.\<close>

record descriptor =
  model :: jsstr
  key :: jsstr

text \<open>
  A relationship mapping is an object from relation names to descriptors; its own keys
  (\<^verbatim>\<open>Object.keys\<close>) are the domain of the map.
\<close>

type_synonym relations = "string \<rightharpoonup> descriptor"

text \<open>
  The static \<open>model_definition\<close> of a model class. A relationship kind that is absent
  (or not an object) is \<open>None\<close>. Column descriptors are not inspected by the store and
  are kept as strings.
\<close>

record model_def =
  table :: jsstr
  attributes :: "(string \<rightharpoonup> string) option"
  belongsTo :: "relations option"
  hasMany :: "relations option"
  hasOne :: "relations option"
  hasManyThrough :: "relations option"

text \<open>
  A function object as the store sees it. \<open>oid\<close> is the object's identity: two function
  objects are the same reference exactly when they are equal as records. \<open>name\<close> is the
  function's \<open>name\<close> property, \<open>extendsModel\<close> says whether
  \<^verbatim>\<open>model.prototype instanceof this.Model\<close> holds (the class \<open>Model\<close> is attached to
  the store by another module), and \<open>model_definition\<close> is \<open>None\<close> when the property is
  missing.
\<close>

record model_class =
  oid :: nat
  name :: string
  extendsModel :: bool
  model_definition :: "model_def option"

text \<open>
  The values that reach \<open>registerModel\<close>, the elements of a batch and the transaction
  argument. An object carries its identity and its \<open>constructor\<close>; a transaction handle
  made by the query engine is \<open>VTransaction\<close>. Numbers are represented by the integers
  and \<open>NaN\<close>.
\<close>

datatype jsval =
    VUndefined
  | VNull
  | VBoolean bool
  | VNumber int
  | VNaN
  | VString string
  | VFunction model_class
  | VObject nat jsval
  | VTransaction nat

fun truthy :: "jsval \<Rightarrow> bool" where
  "truthy VUndefined = False"
| "truthy VNull = False"
| "truthy (VBoolean b) = b"
| "truthy (VNumber n) = (n \<noteq> 0)"
| "truthy VNaN = False"
| "truthy (VString s) = (s \<noteq> [])"
| "truthy (VFunction c) = True"
| "truthy (VObject i c) = True"
| "truthy (VTransaction t) = True"

fun constructor :: "jsval \<Rightarrow> jsval" where
  "constructor (VObject i c) = c"
| "constructor v = VUndefined"

text \<open>
  Modelled from the spec: the helper \<open>isObject\<close> of \<^verbatim>\<open>../helpers\<close>, which is not among
  the sources. The spec calls what it accepts a "non-null structured object".
\<close>

fun isObject :: "jsval \<Rightarrow> bool" where
  "isObject (VObject i c) = True"
| "isObject v = False"

text \<open>
  Modelled from the spec: the constants of \<^verbatim>\<open>./constants\<close>, which is not among the
  sources. The spec names the four relationship kinds \<open>belongsTo\<close>, \<open>hasMany\<close>,
  \<open>hasOne\<close> and \<open>hasManyThrough\<close>.
\<close>

definition BELONGS_TO :: string where
  "BELONGS_TO = ''belongsTo''"

definition HAS_MANY :: string where
  "HAS_MANY = ''hasMany''"

definition HAS_ONE :: string where
  "HAS_ONE = ''hasOne''"

definition HAS_MANY_THROUGH :: string where
  "HAS_MANY_THROUGH = ''hasManyThrough''"

text \<open>\<^verbatim>\<open>model_definition[relType]\<close> followed by \<open>isObject\<close>: the mapping of that kind.\<close>

definition relationsOf :: "model_def \<Rightarrow> string \<Rightarrow> relations option" where
  "relationsOf d relType =
     (if relType = BELONGS_TO then belongsTo d
      else if relType = HAS_MANY then hasMany d
      else if relType = HAS_ONE then hasOne d
      else if relType = HAS_MANY_THROUGH then hasManyThrough d
      else None)"

datatype js_error =
    TypeError
  | ReferenceError
  | InvalidModelError string
  | Rejection

section \<open>The store\<close>

text \<open>
  What the resolver reads is recorded in \<open>probes\<close>: a registry lookup by key, or the
  inspection of one relationship kind of a definition.
\<close>

datatype probe = RegistryLookup string | RelationScan string

text \<open>
  What the store asks of the query engine and of the instances is recorded in \<open>calls\<close>:
  opening a transaction (the handle the engine makes), \<open>save\<close> and \<open>delete\<close> of an
  instance with the handle passed, and \<open>commit\<close> on a handle.
\<close>

datatype call =
    OpenTransaction nat
  | Save jsval jsval
  | Delete jsval jsval
  | Commit nat

record store =
  modelRegistry :: "string \<rightharpoonup> model_class"
  probes :: "probe list"
  calls :: "call list"
  nextTransaction :: nat

text \<open>The constructor: an empty registry.\<close>

definition newStore :: store where
  "newStore = \<lparr>modelRegistry = Map.empty, probes = [], calls = [], nextTransaction = 0\<rparr>"

text \<open>
  \<open>modelRegistry\<close> is created as \<^verbatim>\<open>{}\<close>, so a lookup \<^verbatim>\<open>this.modelRegistry[k]\<close> that
  finds no own property continues in \<open>Object.prototype\<close>, whose properties are all
  truthy and have no \<open>model_definition\<close>. A class whose \<open>name\<close> is \<open>__proto__\<close> is
  outside this model: the assignment \<^verbatim>\<open>this.modelRegistry[model.name] = model\<close> would
  replace the registry's prototype instead of adding an entry.
\<close>

definition objectPrototypeKeys :: "string list" where
  "objectPrototypeKeys =
     [''constructor'', ''__defineGetter__'', ''__defineSetter__'', ''hasOwnProperty'',
      ''__lookupGetter__'', ''__lookupSetter__'', ''isPrototypeOf'',
      ''propertyIsEnumerable'', ''toString'', ''valueOf'', ''__proto__'',
      ''toLocaleString'']"

datatype regval = Registered model_class | Inherited | Absent

definition registryGet :: "(string \<rightharpoonup> model_class) \<Rightarrow> string \<Rightarrow> regval" where
  "registryGet reg k =
     (case reg k of
        Some c \<Rightarrow> Registered c
      | None \<Rightarrow> if k \<in> set objectPrototypeKeys then Inherited else Absent)"

definition readRegistry :: "string \<Rightarrow> store \<Rightarrow> regval \<times> store" where
  "readRegistry k st =
     (registryGet (modelRegistry st) k, st\<lparr>probes := probes st @ [RegistryLookup k]\<rparr>)"

subsection \<open>registerModel\<close>

text \<open>
  Each \<^verbatim>\<open>throw new InvalidModelError(...)\<close> is an \<open>Inl\<close>. The first message ends with
  the text of the candidate, which is left out here.
\<close>

definition isModel :: "jsval \<Rightarrow> bool" where
  "isModel v = (case v of VFunction c \<Rightarrow> extendsModel c | _ \<Rightarrow> False)"

definition registerModel :: "store \<Rightarrow> jsval \<Rightarrow> js_error + store" where
  "registerModel st v =
     (case v of
        VFunction c \<Rightarrow>
          if \<not> extendsModel c then
            Inl (InvalidModelError ''Registered model not instance of store model: '')
          else
            (case model_definition c of
               None \<Rightarrow> Inl (InvalidModelError ''model_definition must be of type object'')
             | Some d \<Rightarrow>
                 if \<not> truthy_str (table d) then
                   Inl (InvalidModelError ''model_definition.table required'')
                 else
                   (case attributes d of
                      None \<Rightarrow>
                        Inl (InvalidModelError
                               ''model_definition.attributes must be non empty object'')
                    | Some a \<Rightarrow>
                        if dom a = {} then
                          Inl (InvalidModelError
                                 ''model_definition.attributes must be non empty object'')
                        else Inr (st\<lparr>modelRegistry := (modelRegistry st)(name c \<mapsto> c)\<rparr>)))
      | _ \<Rightarrow> Inl (InvalidModelError ''Registered model not instance of store model: ''))"

subsection \<open>getThroughRelationshipData\<close>

text \<open>
  The local object \<open>result\<close>. \<open>throughModel\<close> and \<open>targetModel\<close> first hold \<open>null\<close>,
  then what the descriptor's \<open>model\<close> holds, then what the registry returned for that
  name: a registered class, or a property inherited from \<open>Object.prototype\<close>.
  \<open>relationshipCombination\<close> is \<open>None\<close> until the property is added.
\<close>

datatype slot = Val jsstr | Ref model_class | InheritedRef

fun truthy_slot :: "slot \<Rightarrow> bool" where
  "truthy_slot (Val v) = truthy_str v"
| "truthy_slot (Ref c) = True"
| "truthy_slot InheritedRef = True"

record result =
  throughRelationshipType :: jsstr
  throughModel :: slot
  throughKey :: jsstr
  targetRelationshipType :: jsstr
  targetModel :: slot
  targetKey :: jsstr
  relationshipCombination :: "string option"

definition initialResult :: result where
  "initialResult =
     \<lparr>throughRelationshipType = Null, throughModel = Val Null, throughKey = Null,
      targetRelationshipType = Null, targetModel = Val Null, targetKey = Null,
      relationshipCombination = None\<rparr>"

text \<open>String conversion of a \<open>jsstr\<close>, as \<open>+\<close> and a template literal do it.\<close>

fun toString :: "jsstr \<Rightarrow> string" where
  "toString Null = ''null''"
| "toString Undefined = ''undefined''"
| "toString (Str s) = s"

definition relTypes :: "string list" where
  "relTypes = [BELONGS_TO, HAS_MANY, HAS_ONE]"

text \<open>
  The callbacks of the two \<^verbatim>\<open>relTypes.map\<close> calls: one relationship kind is inspected,
  and \<open>result\<close> is overwritten when the kind's own keys contain the relation name.
\<close>

definition throughStep :: "model_def \<Rightarrow> string \<Rightarrow> result \<times> store \<Rightarrow> string \<Rightarrow> result \<times> store" where
  "throughStep d throughRelation rs relType =
     (let r = fst rs;
          st = (snd rs)\<lparr>probes := probes (snd rs) @ [RelationScan relType]\<rparr>
      in case relationsOf d relType of
           None \<Rightarrow> (r, st)
         | Some rels \<Rightarrow>
             (case rels throughRelation of
                None \<Rightarrow> (r, st)
              | Some desc \<Rightarrow>
                  (r\<lparr>throughRelationshipType := Str relType,
                     throughModel := Val (model desc),
                     throughKey := key desc\<rparr>, st)))"

definition targetStep :: "model_def \<Rightarrow> string \<Rightarrow> result \<times> store \<Rightarrow> string \<Rightarrow> result \<times> store" where
  "targetStep d targetRelation rs relType =
     (let r = fst rs;
          st = (snd rs)\<lparr>probes := probes (snd rs) @ [RelationScan relType]\<rparr>
      in case relationsOf d relType of
           None \<Rightarrow> (r, st)
         | Some rels \<Rightarrow>
             (case rels targetRelation of
                None \<Rightarrow> (r, st)
              | Some desc \<Rightarrow>
                  (r\<lparr>targetRelationshipType := Str relType,
                     targetModel := Val (model desc),
                     targetKey := key desc\<rparr>, st)))"

text \<open>
  What the call returns: the record, one of the descriptions, or an exception. Reading
  a property of \<open>undefined\<close> (the \<open>model_definition\<close> of a value that has none) is a
  \<open>TypeError\<close>, raised by the first callback of the scan.
\<close>

datatype outcome = Resolved result | Description string | Throws js_error

text \<open>
  Lines 85 to 100: the second hop, once \<open>result.throughModel\<close> is the through-model.
  After a scan the slot holds \<open>null\<close> or what a descriptor's \<open>model\<close> holds, so the last
  case of the distinction on the slot, here and in the first hop, is never reached from
  \<open>getThroughRelationshipData\<close>.
\<close>

definition resolveTarget :: "result \<Rightarrow> model_class \<Rightarrow> string \<Rightarrow> store \<Rightarrow> outcome \<times> store" where
  "resolveTarget r0 throughClass targetRelation st0 =
     (case model_definition throughClass of
        None \<Rightarrow> (Throws TypeError, st0)
      | Some target_model_definition \<Rightarrow>
          (let rs = foldl (targetStep target_model_definition targetRelation) (r0, st0) relTypes;
               r1 = fst rs; st1 = snd rs
           in if \<not> truthy_slot (targetModel r1) then
                (Description (''Invalid target relation ['' @ targetRelation @ '']''), st1)
              else
                (case targetModel r1 of
                   Val v \<Rightarrow>
                     (let (g1, st2) = readRegistry (toString v) st1
                      in case g1 of
                           Absent \<Rightarrow>
                             (Description (''Invalid target model ['' @ toString v @ '']''), st2)
                         | Inherited \<Rightarrow>
                             (let (g2, st3) = readRegistry (toString v) st2;
                                  r2 = r1\<lparr>targetModel := InheritedRef\<rparr>
                              in (Resolved
                                    (r2\<lparr>relationshipCombination :=
                                          Some (toString (throughRelationshipType r2) @ ''-'' @
                                                toString (targetRelationshipType r2))\<rparr>), st3))
                         | Registered c \<Rightarrow>
                             (let (g2, st3) = readRegistry (toString v) st2;
                                  r2 = r1\<lparr>targetModel := Ref c\<rparr>
                              in (Resolved
                                    (r2\<lparr>relationshipCombination :=
                                          Some (toString (throughRelationshipType r2) @ ''-'' @
                                                toString (targetRelationshipType r2))\<rparr>), st3)))
                 | _ \<Rightarrow> (Throws TypeError, st1))))"

text \<open>Lines 70 to 84: the first hop, once the parent's lookup was truthy.\<close>

definition resolveThrough :: "model_def option \<Rightarrow> string \<Rightarrow> string \<Rightarrow> store \<Rightarrow> outcome \<times> store" where
  "resolveThrough parentDefinition throughRelation targetRelation st0 =
     (case parentDefinition of
        None \<Rightarrow> (Throws TypeError, st0)
      | Some d \<Rightarrow>
          (let rs = foldl (throughStep d throughRelation) (initialResult, st0) relTypes;
               r1 = fst rs; st1 = snd rs
           in if \<not> truthy_slot (throughModel r1) then
                (Description (''Invalid through relation ['' @ throughRelation @ '']''), st1)
              else
                (case throughModel r1 of
                   Val v \<Rightarrow>
                     (let (g1, st2) = readRegistry (toString v) st1
                      in case g1 of
                           Absent \<Rightarrow>
                             (Description (''Invalid through model ['' @ toString v @ '']''), st2)
                         | Inherited \<Rightarrow>
                             (let (g2, st3) = readRegistry (toString v) st2
                              in (Throws TypeError, st3))
                         | Registered c \<Rightarrow>
                             (let (g2, st3) = readRegistry (toString v) st2
                              in resolveTarget (r1\<lparr>throughModel := Ref c\<rparr>) c targetRelation st3))
                 | _ \<Rightarrow> (Throws TypeError, st1))))"

definition getThroughRelationshipData ::
  "store \<Rightarrow> string \<Rightarrow> string \<Rightarrow> string \<Rightarrow> outcome \<times> store" where
  "getThroughRelationshipData st parentModel throughRelation targetRelation =
     (let (g1, st1) = readRegistry parentModel st
      in case g1 of
           Absent \<Rightarrow> (Description ''Invalid parent model'', st1)
         | Inherited \<Rightarrow>
             (let (g2, st2) = readRegistry parentModel st1
              in resolveThrough None throughRelation targetRelation st2)
         | Registered c \<Rightarrow>
             (let (g2, st2) = readRegistry parentModel st1
              in resolveThrough (model_definition c) throughRelation targetRelation st2))"

section \<open>Batch operations\<close>

text \<open>
  Two things the batch operations depend on lie outside the module. The identifier
  \<open>isModel\<close> in the body of \<open>isModelInstance\<close> is neither declared nor imported by the
  module (the method of that name is reached as \<^verbatim>\<open>this.isModel\<close> only), so it is
  resolved in the global environment: \<open>globalIsModel\<close> is the function bound there, or
  \<open>None\<close> when there is no such binding, as in a plain Node.js process. And whether an
  awaited call (\<open>save\<close>, \<open>delete\<close>, \<open>commit\<close>) is fulfilled is decided by the instance
  and the engine: \<open>fulfils\<close> answers it from the calls made so far, the last being the
  call awaited.
\<close>

record env =
  globalIsModel :: "(jsval \<Rightarrow> bool) option"
  fulfils :: "call list \<Rightarrow> bool"

text \<open>
  \<^verbatim>\<open>isObject(modelInstance) && isModel(modelInstance.constructor)\<close>: when the left
  operand is true, the unbound identifier raises \<open>ReferenceError\<close> before the argument
  is evaluated.
\<close>

definition isModelInstance :: "env \<Rightarrow> jsval \<Rightarrow> js_error + bool" where
  "isModelInstance e modelInstance =
     (if isObject modelInstance then
        (case globalIsModel e of
           None \<Rightarrow> Inl ReferenceError
         | Some f \<Rightarrow> Inr (f (constructor modelInstance)))
      else Inr False)"

datatype settled = Fulfilled | Rejected js_error

text \<open>An awaited call: it is recorded, and the operation goes on when it is fulfilled.\<close>

definition await :: "env \<Rightarrow> call \<Rightarrow> store \<Rightarrow> settled \<times> store" where
  "await e c st =
     (let st' = st\<lparr>calls := calls st @ [c]\<rparr>
      in (if fulfils e (calls st') then Fulfilled else Rejected Rejection, st'))"

text \<open>The loops of \<open>_saveAll\<close> and \<open>_deleteAll\<close>, from the first element on.\<close>

fun saveAll_loop :: "env \<Rightarrow> jsval list \<Rightarrow> jsval \<Rightarrow> store \<Rightarrow> settled \<times> store" where
  "saveAll_loop e [] transaction st = (Fulfilled, st)"
| "saveAll_loop e (x # xs) transaction st =
     (case isModelInstance e x of
        Inl err \<Rightarrow> (Rejected err, st)
      | Inr False \<Rightarrow> saveAll_loop e xs transaction st
      | Inr True \<Rightarrow>
          (case await e (Save x transaction) st of
             (Fulfilled, st') \<Rightarrow> saveAll_loop e xs transaction st'
           | (Rejected err, st') \<Rightarrow> (Rejected err, st')))"

fun deleteAll_loop :: "env \<Rightarrow> jsval list \<Rightarrow> jsval \<Rightarrow> store \<Rightarrow> settled \<times> store" where
  "deleteAll_loop e [] transaction st = (Fulfilled, st)"
| "deleteAll_loop e (x # xs) transaction st =
     (case isModelInstance e x of
        Inl err \<Rightarrow> (Rejected err, st)
      | Inr False \<Rightarrow> deleteAll_loop e xs transaction st
      | Inr True \<Rightarrow>
          (case await e (Delete x transaction) st of
             (Fulfilled, st') \<Rightarrow> deleteAll_loop e xs transaction st'
           | (Rejected err, st') \<Rightarrow> (Rejected err, st')))"

text \<open>
  The first argument of \<open>saveAll\<close> and \<open>deleteAll\<close>: an array of values, or a value for
  which \<^verbatim>\<open>Array.isArray\<close> is false.
\<close>

datatype instances = Array "jsval list" | NotArray jsval

text \<open>The default of the second parameter: \<^verbatim>\<open>transaction = null\<close>.\<close>

definition defaultNull :: "jsval \<Rightarrow> jsval" where
  "defaultNull v = (if v = VUndefined then VNull else v)"

text \<open>
  \<^verbatim>\<open>this.knex.transaction(async trx => ...)\<close>: the engine makes a handle and runs the
  callback with it.
\<close>

definition openTransaction :: "store \<Rightarrow> nat \<times> store" where
  "openTransaction st =
     (nextTransaction st,
      st\<lparr>calls := calls st @ [OpenTransaction (nextTransaction st)],
         nextTransaction := Suc (nextTransaction st)\<rparr>)"

definition saveAll :: "env \<Rightarrow> instances \<Rightarrow> jsval \<Rightarrow> store \<Rightarrow> settled \<times> store" where
  "saveAll e modelInstances transactionArg st =
     (let transaction = defaultNull transactionArg
      in case modelInstances of
           NotArray v \<Rightarrow> (Fulfilled, st)
         | Array xs \<Rightarrow>
             if truthy transaction then saveAll_loop e xs transaction st
             else
               (let (trx, st1) = openTransaction st
                in case saveAll_loop e xs (VTransaction trx) st1 of
                     (Fulfilled, st2) \<Rightarrow> await e (Commit trx) st2
                   | (Rejected err, st2) \<Rightarrow> (Rejected err, st2)))"

definition deleteAll :: "env \<Rightarrow> instances \<Rightarrow> jsval \<Rightarrow> store \<Rightarrow> settled \<times> store" where
  "deleteAll e modelInstances transactionArg st =
     (let transaction = defaultNull transactionArg
      in case modelInstances of
           NotArray v \<Rightarrow> (Fulfilled, st)
         | Array xs \<Rightarrow>
             if truthy transaction then deleteAll_loop e xs transaction st
             else
               (let (trx, st1) = openTransaction st
                in case deleteAll_loop e xs (VTransaction trx) st1 of
                     (Fulfilled, st2) \<Rightarrow> await e (Commit trx) st2
                   | (Rejected err, st2) \<Rightarrow> (Rejected err, st2)))"

section \<open>Notions used to state the properties\<close>

text \<open>
  The descriptor a definition declares for a relation name under one relationship kind,
  if that kind's mapping has the name among its own keys.
\<close>

definition declaredUnder :: "model_def \<Rightarrow> string \<Rightarrow> string \<Rightarrow> descriptor option" where
  "declaredUnder d relType relation =
     (case relationsOf d relType of None \<Rightarrow> None | Some rels \<Rightarrow> rels relation)"

text \<open>
  The direct relationship kinds that declare a relation name, in the scan order
  \<open>belongsTo\<close>, \<open>hasMany\<close>, \<open>hasOne\<close>, each with the descriptor it declares.
\<close>

definition matches :: "model_def \<Rightarrow> string \<Rightarrow> (string \<times> descriptor) list" where
  "matches d relation =
     List.map_filter (\<lambda>k. map_option (\<lambda>desc. (k, desc)) (declaredUnder d k relation)) relTypes"

text \<open>The relation names of one relationship mapping.\<close>

definition relationNames :: "relations option \<Rightarrow> string set" where
  "relationNames m = (case m of None \<Rightarrow> {} | Some rels \<Rightarrow> dom rels)"

text \<open>
  The candidates \<open>registerModel\<close> is to refuse: not a recognized model class, no
  \<open>model_definition\<close> object, no table name, or no non-empty attributes mapping.
\<close>

definition invalidCandidate :: "jsval \<Rightarrow> bool" where
  "invalidCandidate v =
     (\<not> isModel v \<or>
      (case v of
         VFunction c \<Rightarrow>
           (case model_definition c of
              None \<Rightarrow> True
            | Some d \<Rightarrow>
                \<not> truthy_str (table d) \<or>
                (case attributes d of None \<Rightarrow> True | Some a \<Rightarrow> dom a = {}))
       | _ \<Rightarrow> True))"

text \<open>
  What registration establishes of a registry: every entry is a class that
  \<open>registerModel\<close> accepts, kept under its name.
\<close>

definition registryValid :: "store \<Rightarrow> bool" where
  "registryValid st =
     (\<forall>k c. modelRegistry st k = Some c \<longrightarrow> k = name c \<and> \<not> invalidCandidate (VFunction c))"

subsection \<open>The models of the examples\<close>

text \<open>Several registrations in a row, up to the first exception.\<close>

fun registerModels :: "store \<Rightarrow> jsval list \<Rightarrow> js_error + store" where
  "registerModels st [] = Inr st"
| "registerModels st (v # vs) =
     (case registerModel st v of Inl err \<Rightarrow> Inl err | Inr st' \<Rightarrow> registerModels st' vs)"

text \<open>
  \<open>Order\<close> has many \<open>items\<close>, an \<open>Item\<close> belongs to a \<open>supplier\<close>; \<open>Supplier\<close> has
  no relationships.
\<close>

definition supplierClass :: model_class where
  "supplierClass =
     \<lparr>oid = 3, name = ''Supplier'', extendsModel = True,
      model_definition =
        Some \<lparr>table = Str ''suppliers'', attributes = Some [''id'' \<mapsto> ''increments''],
              belongsTo = None, hasMany = None, hasOne = None, hasManyThrough = None\<rparr>\<rparr>"

definition itemDefinition :: model_def where
  "itemDefinition =
     \<lparr>table = Str ''items'', attributes = Some [''id'' \<mapsto> ''increments''],
      belongsTo = Some [''supplier'' \<mapsto> \<lparr>model = Str ''Supplier'', key = Str ''supplier_id''\<rparr>],
      hasMany = None, hasOne = None, hasManyThrough = None\<rparr>"

definition itemClass :: model_class where
  "itemClass =
     \<lparr>oid = 2, name = ''Item'', extendsModel = True, model_definition = Some itemDefinition\<rparr>"

definition orderDefinition :: model_def where
  "orderDefinition =
     \<lparr>table = Str ''orders'', attributes = Some [''id'' \<mapsto> ''increments''],
      belongsTo = None,
      hasMany = Some [''items'' \<mapsto> \<lparr>model = Str ''Item'', key = Str ''order_id''\<rparr>],
      hasOne = None, hasManyThrough = None\<rparr>"

definition orderClass :: model_class where
  "orderClass =
     \<lparr>oid = 1, name = ''Order'', extendsModel = True, model_definition = Some orderDefinition\<rparr>"

definition orderStore :: store where
  "orderStore =
     newStore\<lparr>modelRegistry :=
       [''Order'' \<mapsto> orderClass, ''Item'' \<mapsto> itemClass, ''Supplier'' \<mapsto> supplierClass]\<rparr>"

text \<open>
  The same models, the item class being an anonymous class expression: its \<open>name\<close> is the
  empty string, and the order's descriptor refers to it by that name.
\<close>

definition anonymousItemClass :: model_class where
  "anonymousItemClass =
     \<lparr>oid = 4, name = [], extendsModel = True, model_definition = Some itemDefinition\<rparr>"

definition anonymousOrderDefinition :: model_def where
  "anonymousOrderDefinition =
     \<lparr>table = Str ''orders'', attributes = Some [''id'' \<mapsto> ''increments''],
      belongsTo = None,
      hasMany = Some [''items'' \<mapsto> \<lparr>model = Str [], key = Str ''order_id''\<rparr>],
      hasOne = None, hasManyThrough = None\<rparr>"

definition anonymousOrderClass :: model_class where
  "anonymousOrderClass =
     \<lparr>oid = 5, name = ''Order'', extendsModel = True,
      model_definition = Some anonymousOrderDefinition\<rparr>"

definition anonymousStore :: store where
  "anonymousStore =
     newStore\<lparr>modelRegistry :=
       [''Order'' \<mapsto> anonymousOrderClass, [] \<mapsto> anonymousItemClass,
        ''Supplier'' \<mapsto> supplierClass]\<rparr>"

text \<open>
  A relation name declared under two kinds: \<open>author\<close> of a post under \<open>belongsTo\<close> and
  \<open>hasOne\<close>, \<open>owner\<close> of a profile under \<open>belongsTo\<close> and \<open>hasMany\<close>.
\<close>

definition userClass :: model_class where
  "userClass =
     \<lparr>oid = 6, name = ''User'', extendsModel = True,
      model_definition =
        Some \<lparr>table = Str ''users'', attributes = Some [''id'' \<mapsto> ''increments''],
              belongsTo = None, hasMany = None, hasOne = None, hasManyThrough = None\<rparr>\<rparr>"

definition profileDefinition :: model_def where
  "profileDefinition =
     \<lparr>table = Str ''profiles'', attributes = Some [''id'' \<mapsto> ''increments''],
      belongsTo = Some [''owner'' \<mapsto> \<lparr>model = Str ''User'', key = Str ''user_id''\<rparr>],
      hasMany = Some [''owner'' \<mapsto> \<lparr>model = Str ''User'', key = Str ''profile_id''\<rparr>],
      hasOne = None, hasManyThrough = None\<rparr>"

definition profileClass :: model_class where
  "profileClass =
     \<lparr>oid = 7, name = ''Profile'', extendsModel = True,
      model_definition = Some profileDefinition\<rparr>"

definition postDefinition :: model_def where
  "postDefinition =
     \<lparr>table = Str ''posts'', attributes = Some [''id'' \<mapsto> ''increments''],
      belongsTo = Some [''author'' \<mapsto> \<lparr>model = Str ''User'', key = Str ''author_id''\<rparr>],
      hasMany = None,
      hasOne = Some [''author'' \<mapsto> \<lparr>model = Str ''Profile'', key = Str ''post_id''\<rparr>],
      hasManyThrough = None\<rparr>"

definition postClass :: model_class where
  "postClass =
     \<lparr>oid = 8, name = ''Post'', extendsModel = True, model_definition = Some postDefinition\<rparr>"

definition postStore :: store where
  "postStore =
     newStore\<lparr>modelRegistry :=
       [''User'' \<mapsto> userClass, ''Profile'' \<mapsto> profileClass, ''Post'' \<mapsto> postClass]\<rparr>"

text \<open>A customer whose \<open>items\<close> are declared under \<open>hasManyThrough\<close> only.\<close>

definition customerDefinition :: model_def where
  "customerDefinition =
     \<lparr>table = Str ''customers'', attributes = Some [''id'' \<mapsto> ''increments''],
      belongsTo = None,
      hasMany = Some [''orders'' \<mapsto> \<lparr>model = Str ''Order'', key = Str ''customer_id''\<rparr>],
      hasOne = None,
      hasManyThrough = Some [''items'' \<mapsto> \<lparr>model = Str ''Item'', key = Str ''order_id''\<rparr>]\<rparr>"

definition customerClass :: model_class where
  "customerClass =
     \<lparr>oid = 9, name = ''Customer'', extendsModel = True,
      model_definition = Some customerDefinition\<rparr>"

definition customerStore :: store where
  "customerStore =
     orderStore\<lparr>modelRegistry := (modelRegistry orderStore)(''Customer'' \<mapsto> customerClass)\<rparr>"



text \<open>Instances of the model classes.\<close>

definition anOrder :: jsval where
  "anOrder = VObject 10 (VFunction orderClass)"

definition anItem :: jsval where
  "anItem = VObject 11 (VFunction itemClass)"

text \<open>
  Environments: a process in which the global object has no \<open>isModel\<close> and every awaited
  call is fulfilled; one in which a global \<open>isModel\<close> is bound to the store's own test;
  and one with that binding in which every awaited call is rejected.
\<close>

definition plainEnv :: env where
  "plainEnv = \<lparr>globalIsModel = None, fulfils = (\<lambda>cs. True)\<rparr>"

definition boundEnv :: env where
  "boundEnv = \<lparr>globalIsModel = Some isModel, fulfils = (\<lambda>cs. True)\<rparr>"

definition rejectingEnv :: env where
  "rejectingEnv = \<lparr>globalIsModel = Some isModel, fulfils = (\<lambda>cs. False)\<rparr>"

section \<open>Properties of the resolver\<close>

lemma throughStep_declared:
  "throughStep d rel (r, st) k =
     ((case declaredUnder d k rel of
         None \<Rightarrow> r
       | Some desc \<Rightarrow> r\<lparr>throughRelationshipType := Str k, throughModel := Val (model desc),
                        throughKey := key desc\<rparr>),
      st\<lparr>probes := probes st @ [RelationScan k]\<rparr>)"
  by (simp add: throughStep_def declaredUnder_def Let_def split: option.splits)

lemma targetStep_declared:
  "targetStep d rel (r, st) k =
     ((case declaredUnder d k rel of
         None \<Rightarrow> r
       | Some desc \<Rightarrow> r\<lparr>targetRelationshipType := Str k, targetModel := Val (model desc),
                        targetKey := key desc\<rparr>),
      st\<lparr>probes := probes st @ [RelationScan k]\<rparr>)"
  by (simp add: targetStep_def declaredUnder_def Let_def split: option.splits)

text \<open>
  The scan of the first hop: all three kinds are inspected, and the record holds what the
  last kind that declares the name wrote.
\<close>

lemma through_scan:
  "foldl (throughStep d rel) (r, st) relTypes =
     ((if matches d rel = [] then r
       else r\<lparr>throughRelationshipType := Str (fst (last (matches d rel))),
              throughModel := Val (model (snd (last (matches d rel)))),
              throughKey := key (snd (last (matches d rel)))\<rparr>),
      st\<lparr>probes := probes st @ map RelationScan relTypes\<rparr>)"
  by (cases "declaredUnder d BELONGS_TO rel"; cases "declaredUnder d HAS_MANY rel";
      cases "declaredUnder d HAS_ONE rel")
     (simp_all add: relTypes_def matches_def List.map_filter_def throughStep_declared)

lemma target_scan:
  "foldl (targetStep d rel) (r, st) relTypes =
     ((if matches d rel = [] then r
       else r\<lparr>targetRelationshipType := Str (fst (last (matches d rel))),
              targetModel := Val (model (snd (last (matches d rel)))),
              targetKey := key (snd (last (matches d rel)))\<rparr>),
      st\<lparr>probes := probes st @ map RelationScan relTypes\<rparr>)"
  by (cases "declaredUnder d BELONGS_TO rel"; cases "declaredUnder d HAS_MANY rel";
      cases "declaredUnder d HAS_ONE rel")
     (simp_all add: relTypes_def matches_def List.map_filter_def targetStep_declared)

lemma matches_empty_iff:
  "matches d rel = [] \<longleftrightarrow>
     rel \<notin> relationNames (belongsTo d) \<and> rel \<notin> relationNames (hasMany d) \<and>
     rel \<notin> relationNames (hasOne d)"
  by (auto simp: matches_def List.map_filter_def relTypes_def declaredUnder_def relationsOf_def
        relationNames_def BELONGS_TO_def HAS_MANY_def HAS_ONE_def split: option.splits)

lemma readRegistry_registered:
  "modelRegistry st k = Some c \<Longrightarrow>
     readRegistry k st = (Registered c, st\<lparr>probes := probes st @ [RegistryLookup k]\<rparr>)"
  by (simp add: readRegistry_def registryGet_def)

text \<open>After a scan the slot holds \<open>null\<close> or what a descriptor's \<open>model\<close> holds.\<close>

lemma through_scan_slot:
  "\<exists>v. throughModel (fst (foldl (throughStep d rel) (initialResult, st) relTypes)) = Val v"
  by (simp add: through_scan initialResult_def)

lemma target_scan_slot:
  assumes "targetModel r = Val Null"
  shows "\<exists>v. targetModel (fst (foldl (targetStep d rel) (r, st) relTypes)) = Val v"
  using assms by (simp add: target_scan)

text \<open>
  Registration keeps the registry valid, and a class in a valid registry has a
  \<open>model_definition\<close> object.
\<close>

lemma newStore_valid: "registryValid newStore"
  by (simp add: registryValid_def newStore_def)

lemma registerModel_keeps_valid:
  assumes "registryValid st" and "registerModel st v = Inr st'"
  shows "registryValid st'"
proof (cases "invalidCandidate v")
  case True
  have "\<exists>msg. registerModel st v = Inl (InvalidModelError msg)"
    using True
    by (cases v)
       (simp_all add: registerModel_def invalidCandidate_def isModel_def split: option.split_asm)
  with assms(2) show ?thesis by auto
next
  case False
  then have "\<exists>c. v = VFunction c \<and>
      registerModel st v = Inr (st\<lparr>modelRegistry := (modelRegistry st)(name c \<mapsto> c)\<rparr>)"
    by (cases v)
       (simp_all add: registerModel_def invalidCandidate_def isModel_def split: option.split_asm)
  then obtain c where v: "v = VFunction c"
    and st': "st' = st\<lparr>modelRegistry := (modelRegistry st)(name c \<mapsto> c)\<rparr>"
    using assms(2) by auto
  show ?thesis
    using assms(1) False unfolding registryValid_def st' v by auto
qed

lemma registerModels_keeps_valid:
  "registryValid st \<Longrightarrow> registerModels st vs = Inr st' \<Longrightarrow> registryValid st'"
proof (induction vs arbitrary: st)
  case Nil
  then show ?case by simp
next
  case (Cons v vs)
  show ?case
  proof (cases "registerModel st v")
    case (Inl err)
    with Cons.prems(2) show ?thesis by simp
  next
    case (Inr st1)
    with Cons.prems(2) have "registerModels st1 vs = Inr st'" by simp
    from Cons.IH [OF registerModel_keeps_valid [OF Cons.prems(1) Inr] this]
    show ?thesis .
  qed
qed

lemma valid_registered_definition:
  assumes "registryValid st" and "modelRegistry st k = Some c"
  shows "\<exists>d. model_definition c = Some d"
proof -
  from assms have "\<not> invalidCandidate (VFunction c)"
    by (auto simp: registryValid_def)
  then show ?thesis
    by (cases "model_definition c") (simp_all add: invalidCandidate_def)
qed

text \<open>The stores of the examples are what the registrations build.\<close>

lemma orderStore_registered:
  "registerModels newStore [VFunction orderClass, VFunction itemClass, VFunction supplierClass] =
     Inr orderStore"
  by (simp add: registerModel_def orderStore_def newStore_def orderClass_def itemClass_def
        supplierClass_def orderDefinition_def itemDefinition_def)

lemma anonymousStore_registered:
  "registerModels newStore
     [VFunction anonymousOrderClass, VFunction anonymousItemClass, VFunction supplierClass] =
     Inr anonymousStore"
  by (simp add: registerModel_def anonymousStore_def newStore_def anonymousOrderClass_def
        anonymousItemClass_def supplierClass_def anonymousOrderDefinition_def itemDefinition_def)

lemma postStore_registered:
  "registerModels newStore [VFunction userClass, VFunction profileClass, VFunction postClass] =
     Inr postStore"
  by (simp add: registerModel_def postStore_def newStore_def userClass_def profileClass_def
        postClass_def profileDefinition_def postDefinition_def)

lemma customerStore_registered:
  "registerModels orderStore [VFunction customerClass] = Inr customerStore"
  by (simp add: registerModel_def customerStore_def customerClass_def customerDefinition_def)

lemmas example_matches_defs =
  matches_def List.map_filter_def relTypes_def declaredUnder_def relationsOf_def
  BELONGS_TO_def HAS_MANY_def HAS_ONE_def HAS_MANY_THROUGH_def

subsection \<open>An absent through relation\<close>

text \<open>
  Claim C7. For a registered parent model (its \<open>model_definition\<close> is an object, as
  \<open>registerModel\<close> requires) and a through-relation name that is among the relation
  names of none of the parent's \<open>belongsTo\<close>, \<open>hasMany\<close> and \<open>hasOne\<close> mappings,
  \<open>getThroughRelationshipData\<close> returns the description
  \<open>Invalid through relation [name]\<close> with the name that was asked for. A name declared
  under \<open>hasManyThrough\<close> only is such a name.
\<close>

theorem absent_through_relation_description:
  assumes "modelRegistry st parentModel = Some P"
    and "model_definition P = Some pd"
    and "throughRelation \<notin> relationNames (belongsTo pd)"
    and "throughRelation \<notin> relationNames (hasMany pd)"
    and "throughRelation \<notin> relationNames (hasOne pd)"
  shows "fst (getThroughRelationshipData st parentModel throughRelation targetRelation) =
           Description (''Invalid through relation ['' @ throughRelation @ '']'')"
proof -
  have m: "matches pd throughRelation = []"
    using assms(3-5) by (simp add: matches_empty_iff)
  show ?thesis
    using assms(1,2) m
    by (simp add: getThroughRelationshipData_def resolveThrough_def readRegistry_registered
          through_scan initialResult_def)
qed

theorem absent_through_relation_description_witness:
  "modelRegistry customerStore ''Customer'' = Some customerClass \<and>
   ''items'' \<in> relationNames (hasManyThrough customerDefinition) \<and>
   fst (getThroughRelationshipData customerStore ''Customer'' ''items'' ''supplier'') =
     Description ''Invalid through relation [items]''"
proof -
  have r: "modelRegistry customerStore ''Customer'' = Some customerClass"
    by (simp add: customerStore_def)
  have d: "model_definition customerClass = Some customerDefinition"
    by (simp add: customerClass_def)
  have n: "''items'' \<notin> relationNames (belongsTo customerDefinition)"
    "''items'' \<notin> relationNames (hasMany customerDefinition)"
    "''items'' \<notin> relationNames (hasOne customerDefinition)"
    by (simp_all add: relationNames_def customerDefinition_def)
  have t: "''items'' \<in> relationNames (hasManyThrough customerDefinition)"
    by (simp add: relationNames_def customerDefinition_def)
  from absent_through_relation_description [OF r d n, of "''supplier''"] r t
  show ?thesis by simp
qed

subsection \<open>A resolved through relationship\<close>

text \<open>
  Claim C1, amended. Let the parent, the through-model and the target-model be
  registered, let the through relation name be declared by exactly one of the parent's
  direct relationship kinds and the target relation name by exactly one of the
  through-model's, and let the model names in the two descriptors be non-empty strings.
  Then \<open>getThroughRelationshipData\<close> returns a record whose \<open>throughModel\<close> and
  \<open>targetModel\<close> are the registered class objects themselves, whose keys are the
  descriptors' \<open>key\<close> fields, whose types are the two kinds and whose
  \<open>relationshipCombination\<close> is the two kinds joined by \<open>-\<close>.
\<close>

theorem through_relationship_resolved:
  assumes "modelRegistry st parentModel = Some P"
    and "model_definition P = Some pd"
    and "matches pd throughRelation = [(k1, d1)]"
    and "model d1 = Str tn" and "tn \<noteq> []"
    and "modelRegistry st tn = Some T"
    and "model_definition T = Some td"
    and "matches td targetRelation = [(k2, d2)]"
    and "model d2 = Str gn" and "gn \<noteq> []"
    and "modelRegistry st gn = Some G"
  shows "fst (getThroughRelationshipData st parentModel throughRelation targetRelation) =
           Resolved \<lparr>throughRelationshipType = Str k1, throughModel = Ref T, throughKey = key d1,
                     targetRelationshipType = Str k2, targetModel = Ref G, targetKey = key d2,
                     relationshipCombination = Some (k1 @ ''-'' @ k2)\<rparr>"
  using assms
  by (simp add: getThroughRelationshipData_def resolveThrough_def resolveTarget_def
        readRegistry_registered through_scan target_scan initialResult_def)

text \<open>The scenario of the orders, their items and the items' suppliers.\<close>

theorem through_relationship_resolved_witness:
  "fst (getThroughRelationshipData orderStore ''Order'' ''items'' ''supplier'') =
     Resolved \<lparr>throughRelationshipType = Str ''hasMany'', throughModel = Ref itemClass,
               throughKey = Str ''order_id'', targetRelationshipType = Str ''belongsTo'',
               targetModel = Ref supplierClass, targetKey = Str ''supplier_id'',
               relationshipCombination = Some ''hasMany-belongsTo''\<rparr>"
proof -
  have p: "modelRegistry orderStore ''Order'' = Some orderClass"
    and t: "modelRegistry orderStore ''Item'' = Some itemClass"
    and g: "modelRegistry orderStore ''Supplier'' = Some supplierClass"
    by (simp_all add: orderStore_def)
  have pd: "model_definition orderClass = Some orderDefinition"
    and td: "model_definition itemClass = Some itemDefinition"
    by (simp_all add: orderClass_def itemClass_def)
  have m1: "matches orderDefinition ''items'' =
              [(''hasMany'', \<lparr>model = Str ''Item'', key = Str ''order_id''\<rparr>)]"
    by (simp add: example_matches_defs orderDefinition_def)
  have m2: "matches itemDefinition ''supplier'' =
              [(''belongsTo'', \<lparr>model = Str ''Supplier'', key = Str ''supplier_id''\<rparr>)]"
    by (simp add: example_matches_defs itemDefinition_def)
  from through_relationship_resolved [OF p pd m1 _ _ t td m2 _ _ g]
  show ?thesis by simp
qed

text \<open>
  Without the condition on the names the claim fails: the anonymous item class is
  registered under the empty string, the order's only \<open>items\<close> relation refers to it, and
  the call answers that the relation is invalid.
\<close>

theorem through_relationship_empty_model_name:
  "registerModels newStore
     [VFunction anonymousOrderClass, VFunction anonymousItemClass, VFunction supplierClass] =
     Inr anonymousStore \<and>
   modelRegistry anonymousStore ''Order'' = Some anonymousOrderClass \<and>
   matches anonymousOrderDefinition ''items'' =
     [(''hasMany'', \<lparr>model = Str [], key = Str ''order_id''\<rparr>)] \<and>
   modelRegistry anonymousStore [] = Some anonymousItemClass \<and>
   matches itemDefinition ''supplier'' =
     [(''belongsTo'', \<lparr>model = Str ''Supplier'', key = Str ''supplier_id''\<rparr>)] \<and>
   modelRegistry anonymousStore ''Supplier'' = Some supplierClass \<and>
   fst (getThroughRelationshipData anonymousStore ''Order'' ''items'' ''supplier'') =
     Description ''Invalid through relation [items]''"
proof -
  have m1: "matches anonymousOrderDefinition ''items'' =
     [(''hasMany'', \<lparr>model = Str [], key = Str ''order_id''\<rparr>)]"
    by (simp add: example_matches_defs anonymousOrderDefinition_def)
  have m2: "matches itemDefinition ''supplier'' =
     [(''belongsTo'', \<lparr>model = Str ''Supplier'', key = Str ''supplier_id''\<rparr>)]"
    by (simp add: example_matches_defs itemDefinition_def)
  have r: "modelRegistry anonymousStore ''Order'' = Some anonymousOrderClass"
    "modelRegistry anonymousStore [] = Some anonymousItemClass"
    "modelRegistry anonymousStore ''Supplier'' = Some supplierClass"
    by (simp_all add: anonymousStore_def)
  have "fst (getThroughRelationshipData anonymousStore ''Order'' ''items'' ''supplier'') =
     Description ''Invalid through relation [items]''"
    using r(1) m1
    by (simp add: getThroughRelationshipData_def resolveThrough_def readRegistry_registered
          through_scan initialResult_def anonymousOrderClass_def)
  with anonymousStore_registered m1 m2 r show ?thesis by simp
qed

subsection \<open>The last matching kind\<close>

lemma resolveTarget_cases:
  assumes "resolveTarget r0 c targetRelation st0 = (Resolved r, st')"
    and "model_definition c = Some td"
    and "targetModel r0 = Val Null"
  shows "matches td targetRelation \<noteq> [] \<and>
         r = r0\<lparr>targetRelationshipType := Str (fst (last (matches td targetRelation))),
                targetModel := targetModel r,
                targetKey := key (snd (last (matches td targetRelation))),
                relationshipCombination :=
                  Some (toString (throughRelationshipType r0) @ ''-'' @
                        fst (last (matches td targetRelation)))\<rparr> \<and>
         probes st' =
           probes st0 @ map RelationScan relTypes @
           [RegistryLookup (toString (model (snd (last (matches td targetRelation))))),
            RegistryLookup (toString (model (snd (last (matches td targetRelation)))))]"
proof (cases "matches td targetRelation = []")
  case True
  with assms show ?thesis
    by (simp add: resolveTarget_def target_scan)
next
  case False
  let ?v = "model (snd (last (matches td targetRelation)))"
  show ?thesis
  proof (cases "registryGet (modelRegistry st0) (toString ?v)")
    case (Registered g)
    with assms False show ?thesis
      by (auto simp: resolveTarget_def target_scan readRegistry_def Let_def split: if_split_asm)
  next
    case Inherited
    with assms False show ?thesis
      by (auto simp: resolveTarget_def target_scan readRegistry_def Let_def split: if_split_asm)
  next
    case Absent
    with assms False show ?thesis
      by (simp add: resolveTarget_def target_scan readRegistry_def Let_def split: if_split_asm)
  qed
qed

lemma resolveThrough_cases:
  assumes "resolveThrough (Some pd) throughRelation targetRelation st0 = (Resolved r, st')"
  shows "\<exists>c. matches pd throughRelation \<noteq> [] \<and>
           registryGet (modelRegistry st0)
             (toString (model (snd (last (matches pd throughRelation))))) = Registered c \<and>
           resolveTarget
             (initialResult\<lparr>throughRelationshipType := Str (fst (last (matches pd throughRelation))),
                            throughModel := Ref c,
                            throughKey := key (snd (last (matches pd throughRelation)))\<rparr>)
             c targetRelation
             (st0\<lparr>probes := probes st0 @ map RelationScan relTypes @
                [RegistryLookup (toString (model (snd (last (matches pd throughRelation))))),
                 RegistryLookup (toString (model (snd (last (matches pd throughRelation)))))]\<rparr>)
           = (Resolved r, st')"
proof (cases "matches pd throughRelation = []")
  case True
  with assms show ?thesis
    by (simp add: resolveThrough_def through_scan initialResult_def)
next
  case False
  let ?v = "model (snd (last (matches pd throughRelation)))"
  show ?thesis
  proof (cases "registryGet (modelRegistry st0) (toString ?v)")
    case (Registered g)
    with assms False show ?thesis
      by (simp add: resolveThrough_def through_scan readRegistry_def Let_def initialResult_def
          split: if_split_asm)
  next
    case Inherited
    with assms False show ?thesis
      by (simp add: resolveThrough_def through_scan readRegistry_def Let_def initialResult_def
          split: if_split_asm)
  next
    case Absent
    with assms False show ?thesis
      by (simp add: resolveThrough_def through_scan readRegistry_def Let_def initialResult_def
          split: if_split_asm)
  qed
qed

text \<open>
  Claim C2. When a resolution succeeds, the record's \<open>throughRelationshipType\<close> is the
  last of the kinds \<open>belongsTo\<close>, \<open>hasMany\<close>, \<open>hasOne\<close> (in this order) that declare
  the through relation name in the parent's definition, however many of them do, and
  likewise \<open>targetRelationshipType\<close> for the target relation name in the through-model's
  definition. Both scans inspect all three kinds in that order, as the probes show: no
  scan stops at the first match.
\<close>

theorem last_matching_kind_wins:
  assumes "getThroughRelationshipData st parentModel throughRelation targetRelation =
             (Resolved r, st')"
    and "modelRegistry st parentModel = Some P"
    and "model_definition P = Some pd"
    and "throughModel r = Ref T"
    and "model_definition T = Some td"
  shows "matches pd throughRelation \<noteq> [] \<and> matches td targetRelation \<noteq> [] \<and>
         throughRelationshipType r = Str (fst (last (matches pd throughRelation))) \<and>
         targetRelationshipType r = Str (fst (last (matches td targetRelation))) \<and>
         probes st' =
           probes st @ [RegistryLookup parentModel, RegistryLookup parentModel] @
           map RelationScan [BELONGS_TO, HAS_MANY, HAS_ONE] @
           [RegistryLookup (toString (model (snd (last (matches pd throughRelation))))),
            RegistryLookup (toString (model (snd (last (matches pd throughRelation)))))] @
           map RelationScan [BELONGS_TO, HAS_MANY, HAS_ONE] @
           [RegistryLookup (toString (model (snd (last (matches td targetRelation))))),
            RegistryLookup (toString (model (snd (last (matches td targetRelation)))))]"
proof -
  let ?st2 = "st\<lparr>probes := probes st @ [RegistryLookup parentModel, RegistryLookup parentModel]\<rparr>"
  let ?tn = "toString (model (snd (last (matches pd throughRelation))))"
  let ?r0 = "initialResult\<lparr>throughRelationshipType := Str (fst (last (matches pd throughRelation))),
                           throughModel := Ref T,
                           throughKey := key (snd (last (matches pd throughRelation)))\<rparr>"
  have "resolveThrough (Some pd) throughRelation targetRelation ?st2 = (Resolved r, st')"
    using assms(1-3)
    by (simp add: getThroughRelationshipData_def readRegistry_registered)
  from resolveThrough_cases [OF this]
  obtain c where m: "matches pd throughRelation \<noteq> []"
    and t: "resolveTarget
             (initialResult\<lparr>throughRelationshipType := Str (fst (last (matches pd throughRelation))),
                            throughModel := Ref c,
                            throughKey := key (snd (last (matches pd throughRelation)))\<rparr>)
             c targetRelation
             (?st2\<lparr>probes := probes ?st2 @ map RelationScan relTypes @
                [RegistryLookup ?tn, RegistryLookup ?tn]\<rparr>)
           = (Resolved r, st')"
    by blast
  have "throughModel r = Ref c"
    using t
    by (simp add: resolveTarget_def target_scan readRegistry_def Let_def initialResult_def
        split: option.split_asm if_split_asm regval.split_asm)
       auto
  then have c: "c = T" using assms(4) by simp
  have n: "targetModel ?r0 = Val Null" by (simp add: initialResult_def)
  from resolveTarget_cases [OF t [unfolded c] assms(5) n]
  have m2: "matches td targetRelation \<noteq> []"
    and r: "r = ?r0\<lparr>targetRelationshipType := Str (fst (last (matches td targetRelation))),
                targetModel := targetModel r,
                targetKey := key (snd (last (matches td targetRelation))),
                relationshipCombination :=
                  Some (toString (throughRelationshipType ?r0) @ ''-'' @
                        fst (last (matches td targetRelation)))\<rparr>"
    and p: "probes st' =
           probes (?st2\<lparr>probes := probes ?st2 @ map RelationScan relTypes @
                [RegistryLookup ?tn, RegistryLookup ?tn]\<rparr>) @ map RelationScan relTypes @
           [RegistryLookup (toString (model (snd (last (matches td targetRelation))))),
            RegistryLookup (toString (model (snd (last (matches td targetRelation)))))]"
    by blast+
  have "throughRelationshipType r = Str (fst (last (matches pd throughRelation)))"
    by (subst r) simp
  moreover have "targetRelationshipType r = Str (fst (last (matches td targetRelation)))"
    by (subst r) simp
  ultimately show ?thesis
    using m m2 p by (simp add: relTypes_def)
qed

text \<open>
  \<open>author\<close> is declared under \<open>belongsTo\<close> and \<open>hasOne\<close> and resolves with \<open>hasOne\<close>;
  \<open>owner\<close> is declared under \<open>belongsTo\<close> and \<open>hasMany\<close> and resolves with
  \<open>hasMany\<close>.
\<close>

theorem last_matching_kind_wins_witness:
  "map fst (matches postDefinition ''author'') = [''belongsTo'', ''hasOne''] \<and>
   map fst (matches profileDefinition ''owner'') = [''belongsTo'', ''hasMany''] \<and>
   fst (getThroughRelationshipData postStore ''Post'' ''author'' ''owner'') =
     Resolved \<lparr>throughRelationshipType = Str ''hasOne'', throughModel = Ref profileClass,
               throughKey = Str ''post_id'', targetRelationshipType = Str ''hasMany'',
               targetModel = Ref userClass, targetKey = Str ''profile_id'',
               relationshipCombination = Some ''hasOne-hasMany''\<rparr> \<and>
   fst (last (matches postDefinition ''author'')) = ''hasOne'' \<and>
   fst (last (matches profileDefinition ''owner'')) = ''hasMany''"
proof -
  let ?r = "\<lparr>throughRelationshipType = Str ''hasOne'', throughModel = Ref profileClass,
               throughKey = Str ''post_id'', targetRelationshipType = Str ''hasMany'',
               targetModel = Ref userClass, targetKey = Str ''profile_id'',
               relationshipCombination = Some ''hasOne-hasMany''\<rparr>"
  have m1: "matches postDefinition ''author'' =
              [(''belongsTo'', \<lparr>model = Str ''User'', key = Str ''author_id''\<rparr>),
               (''hasOne'', \<lparr>model = Str ''Profile'', key = Str ''post_id''\<rparr>)]"
    by (simp add: example_matches_defs postDefinition_def)
  have m2: "matches profileDefinition ''owner'' =
              [(''belongsTo'', \<lparr>model = Str ''User'', key = Str ''user_id''\<rparr>),
               (''hasMany'', \<lparr>model = Str ''User'', key = Str ''profile_id''\<rparr>)]"
    by (simp add: example_matches_defs profileDefinition_def)
  have p: "modelRegistry postStore ''Post'' = Some postClass"
    by (simp add: postStore_def)
  have pd: "model_definition postClass = Some postDefinition"
    and td: "model_definition profileClass = Some profileDefinition"
    by (simp_all add: postClass_def profileClass_def)
  let ?st' = "postStore\<lparr>probes :=
      [RegistryLookup ''Post'', RegistryLookup ''Post'',
       RelationScan ''belongsTo'', RelationScan ''hasMany'', RelationScan ''hasOne'',
       RegistryLookup ''Profile'', RegistryLookup ''Profile'',
       RelationScan ''belongsTo'', RelationScan ''hasMany'', RelationScan ''hasOne'',
       RegistryLookup ''User'', RegistryLookup ''User'']\<rparr>"
  have e: "getThroughRelationshipData postStore ''Post'' ''author'' ''owner'' = (Resolved ?r, ?st')"
    by (simp add: getThroughRelationshipData_def resolveThrough_def resolveTarget_def
          readRegistry_def registryGet_def throughStep_def targetStep_def relTypes_def
          relationsOf_def BELONGS_TO_def HAS_MANY_def HAS_ONE_def initialResult_def
          postStore_def newStore_def postClass_def profileClass_def postDefinition_def
          profileDefinition_def)
  have "throughModel ?r = Ref profileClass" by simp
  from last_matching_kind_wins [OF e p pd this td]
  have a: "throughRelationshipType ?r = Str (fst (last (matches postDefinition ''author'')))"
    and b: "targetRelationshipType ?r = Str (fst (last (matches profileDefinition ''owner'')))"
    by blast+
  from a have a': "fst (last (matches postDefinition ''author'')) = ''hasOne''"
    by simp
  from b have b': "fst (last (matches profileDefinition ''owner'')) = ''hasMany''"
    by simp
  have "fst (getThroughRelationshipData postStore ''Post'' ''author'' ''owner'') = Resolved ?r"
    by (simp only: e fst_conv)
  with a' b' m1 m2 show ?thesis by simp
qed

subsection \<open>An unregistered parent\<close>

text \<open>
  For a parent model name that is neither registered nor the name of a property of
  \<open>Object.prototype\<close>, the call returns the description at once: the only probe is the
  lookup of the name, and neither relation argument is looked at.
\<close>

lemma absent_parent_description:
  assumes "modelRegistry st parentModel = None"
    and "parentModel \<notin> set objectPrototypeKeys"
  shows "getThroughRelationshipData st parentModel throughRelation targetRelation =
           (Description ''Invalid parent model'',
            st\<lparr>probes := probes st @ [RegistryLookup parentModel]\<rparr>)"
  using assms by (simp add: getThroughRelationshipData_def readRegistry_def registryGet_def)

text \<open>
  For an unregistered name that \<open>Object.prototype\<close> has, the lookup is truthy and the
  call raises \<open>TypeError\<close>.
\<close>

lemma inherited_parent_throws:
  assumes "modelRegistry st parentModel = None"
    and "parentModel \<in> set objectPrototypeKeys"
  shows "getThroughRelationshipData st parentModel throughRelation targetRelation =
           (Throws TypeError,
            st\<lparr>probes := probes st @ [RegistryLookup parentModel, RegistryLookup parentModel]\<rparr>)"
  using assms
  by (simp add: getThroughRelationshipData_def readRegistry_def registryGet_def
        resolveThrough_def)

text \<open>
  Claim C6 says that every parent model name that is not in the registry gets the
  description \<open>Invalid parent model\<close>. In a new store, where nothing is registered, the
  name \<open>toString\<close> does not: the lookup finds the inherited function, the line that
  returns the description is passed, a second lookup follows, and the scan raises
  \<open>TypeError\<close> on the missing \<open>model_definition\<close>.
\<close>

theorem inherited_parent_name_type_error:
  "modelRegistry newStore ''toString'' = None \<and>
   getThroughRelationshipData newStore ''toString'' ''items'' ''supplier'' =
     (Throws TypeError,
      newStore\<lparr>probes := [RegistryLookup ''toString'', RegistryLookup ''toString'']\<rparr>)"
  by (simp add: getThroughRelationshipData_def readRegistry_def registryGet_def
        resolveThrough_def newStore_def objectPrototypeKeys_def)

subsection \<open>The registry is only read\<close>

text \<open>
  Claim C10. Whatever the three arguments are and whatever the call returns (the
  record, a description or an exception), the registry after the call is the registry
  before it.
\<close>

theorem resolution_leaves_registry_unchanged:
  "modelRegistry (snd (getThroughRelationshipData st parentModel throughRelation targetRelation)) =
     modelRegistry st"
  by (simp add: getThroughRelationshipData_def resolveThrough_def resolveTarget_def
        readRegistry_def through_scan target_scan Let_def
      split: regval.splits option.splits slot.splits list.splits prod.splits)

section \<open>Properties of registerModel\<close>






section \<open>Properties of the batch operations\<close>

subsection \<open>The loops\<close>

text \<open>
  A loop that is fulfilled has called \<open>save\<close> (or \<open>delete\<close>) with the given handle on
  the elements for which \<open>isModelInstance\<close> is true, in the order of the array, and has
  done nothing else.
\<close>

lemma saveAll_loop_fulfilled:
  "saveAll_loop e xs t st = (Fulfilled, st') \<Longrightarrow>
     st' = st\<lparr>calls := calls st @
             map (\<lambda>x. Save x t) (filter (\<lambda>x. isModelInstance e x = Inr True) xs)\<rparr>"
proof (induction xs arbitrary: st)
  case Nil
  then show ?case by simp
next
  case (Cons x xs)
  show ?case
  proof (cases "isModelInstance e x")
    case (Inl err)
    with Cons.prems show ?thesis by simp
  next
    case (Inr b)
    show ?thesis
    proof (cases b)
      case False
      with Inr Cons show ?thesis by simp
    next
      case True
      show ?thesis
      proof (cases "fulfils e (calls st @ [Save x t])")
        case f: True
        with Inr True Cons.prems
        have "saveAll_loop e xs t (st\<lparr>calls := calls st @ [Save x t]\<rparr>) = (Fulfilled, st')"
          by (simp add: await_def)
        from Cons.IH [OF this] Inr True show ?thesis by simp
      next
        case f: False
        with Inr True Cons.prems show ?thesis by (simp add: await_def)
      qed
    qed
  qed
qed

lemma deleteAll_loop_fulfilled:
  "deleteAll_loop e xs t st = (Fulfilled, st') \<Longrightarrow>
     st' = st\<lparr>calls := calls st @
             map (\<lambda>x. Delete x t) (filter (\<lambda>x. isModelInstance e x = Inr True) xs)\<rparr>"
proof (induction xs arbitrary: st)
  case Nil
  then show ?case by simp
next
  case (Cons x xs)
  show ?case
  proof (cases "isModelInstance e x")
    case (Inl err)
    with Cons.prems show ?thesis by simp
  next
    case (Inr b)
    show ?thesis
    proof (cases b)
      case False
      with Inr Cons show ?thesis by simp
    next
      case True
      show ?thesis
      proof (cases "fulfils e (calls st @ [Delete x t])")
        case f: True
        with Inr True Cons.prems
        have "deleteAll_loop e xs t (st\<lparr>calls := calls st @ [Delete x t]\<rparr>) = (Fulfilled, st')"
          by (simp add: await_def)
        from Cons.IH [OF this] Inr True show ?thesis by simp
      next
        case f: False
        with Inr True Cons.prems show ?thesis by (simp add: await_def)
      qed
    qed
  qed
qed

text \<open>
  However a loop ends, all it has done is to call \<open>save\<close> (or \<open>delete\<close>) with the given
  handle on some of the elements.
\<close>

lemma saveAll_loop_calls:
  "\<exists>ys. snd (saveAll_loop e xs t st) = st\<lparr>calls := calls st @ map (\<lambda>x. Save x t) ys\<rparr>"
proof (induction xs arbitrary: st)
  case Nil
  have "snd (saveAll_loop e [] t st) = st\<lparr>calls := calls st @ map (\<lambda>x. Save x t) []\<rparr>"
    by simp
  then show ?case by blast
next
  case (Cons x xs)
  show ?case
  proof (cases "isModelInstance e x")
    case (Inl err)
    then have "snd (saveAll_loop e (x # xs) t st) =
        st\<lparr>calls := calls st @ map (\<lambda>x. Save x t) []\<rparr>"
      by simp
    then show ?thesis by blast
  next
    case (Inr b)
    show ?thesis
    proof (cases b)
      case False
      with Inr Cons.IH [of st] show ?thesis by simp
    next
      case True
      show ?thesis
      proof (cases "fulfils e (calls st @ [Save x t])")
        case f: True
        from Cons.IH [of "st\<lparr>calls := calls st @ [Save x t]\<rparr>"]
        obtain ys where "snd (saveAll_loop e xs t (st\<lparr>calls := calls st @ [Save x t]\<rparr>)) =
           st\<lparr>calls := calls st @ map (\<lambda>x. Save x t) (x # ys)\<rparr>"
          by auto
        with Inr True f have "snd (saveAll_loop e (x # xs) t st) =
           st\<lparr>calls := calls st @ map (\<lambda>x. Save x t) (x # ys)\<rparr>"
          by (simp add: await_def)
        then show ?thesis by blast
      next
        case f: False
        with Inr True have "snd (saveAll_loop e (x # xs) t st) =
           st\<lparr>calls := calls st @ map (\<lambda>x. Save x t) [x]\<rparr>"
          by (simp add: await_def)
        then show ?thesis by blast
      qed
    qed
  qed
qed

lemma deleteAll_loop_calls:
  "\<exists>ys. snd (deleteAll_loop e xs t st) = st\<lparr>calls := calls st @ map (\<lambda>x. Delete x t) ys\<rparr>"
proof (induction xs arbitrary: st)
  case Nil
  have "snd (deleteAll_loop e [] t st) = st\<lparr>calls := calls st @ map (\<lambda>x. Delete x t) []\<rparr>"
    by simp
  then show ?case by blast
next
  case (Cons x xs)
  show ?case
  proof (cases "isModelInstance e x")
    case (Inl err)
    then have "snd (deleteAll_loop e (x # xs) t st) =
        st\<lparr>calls := calls st @ map (\<lambda>x. Delete x t) []\<rparr>"
      by simp
    then show ?thesis by blast
  next
    case (Inr b)
    show ?thesis
    proof (cases b)
      case False
      with Inr Cons.IH [of st] show ?thesis by simp
    next
      case True
      show ?thesis
      proof (cases "fulfils e (calls st @ [Delete x t])")
        case f: True
        from Cons.IH [of "st\<lparr>calls := calls st @ [Delete x t]\<rparr>"]
        obtain ys where "snd (deleteAll_loop e xs t (st\<lparr>calls := calls st @ [Delete x t]\<rparr>)) =
           st\<lparr>calls := calls st @ map (\<lambda>x. Delete x t) (x # ys)\<rparr>"
          by auto
        with Inr True f have "snd (deleteAll_loop e (x # xs) t st) =
           st\<lparr>calls := calls st @ map (\<lambda>x. Delete x t) (x # ys)\<rparr>"
          by (simp add: await_def)
        then show ?thesis by blast
      next
        case f: False
        with Inr True have "snd (deleteAll_loop e (x # xs) t st) =
           st\<lparr>calls := calls st @ map (\<lambda>x. Delete x t) [x]\<rparr>"
          by (simp add: await_def)
        then show ?thesis by blast
      qed
    qed
  qed
qed

subsection \<open>The transaction argument\<close>

lemma falsy_defaultNull: "\<not> truthy t \<Longrightarrow> \<not> truthy (defaultNull t)"
  by (simp add: defaultNull_def)

lemma saveAll_truthy:
  "truthy t \<Longrightarrow> saveAll e (Array xs) t st = saveAll_loop e xs t st"
  by (cases t) (simp_all add: saveAll_def defaultNull_def)

lemma deleteAll_truthy:
  "truthy t \<Longrightarrow> deleteAll e (Array xs) t st = deleteAll_loop e xs t st"
  by (cases t) (simp_all add: deleteAll_def defaultNull_def)

lemma saveAll_falsy:
  assumes "\<not> truthy t"
  shows "saveAll e (Array xs) t st =
           (case saveAll_loop e xs (VTransaction (nextTransaction st)) (snd (openTransaction st)) of
              (Fulfilled, st2) \<Rightarrow> await e (Commit (nextTransaction st)) st2
            | (Rejected err, st2) \<Rightarrow> (Rejected err, st2))"
  using falsy_defaultNull [OF assms]
  by (simp add: saveAll_def openTransaction_def Let_def)

lemma deleteAll_falsy:
  assumes "\<not> truthy t"
  shows "deleteAll e (Array xs) t st =
           (case deleteAll_loop e xs (VTransaction (nextTransaction st)) (snd (openTransaction st)) of
              (Fulfilled, st2) \<Rightarrow> await e (Commit (nextTransaction st)) st2
            | (Rejected err, st2) \<Rightarrow> (Rejected err, st2))"
  using falsy_defaultNull [OF assms]
  by (simp add: deleteAll_def openTransaction_def Let_def)

text \<open>
  With a handle of the caller's, \<open>saveAll\<close> neither opens a transaction nor commits one:
  all it records are calls of \<open>save\<close> with that handle.
\<close>

lemma saveAll_supplied_transaction:
  assumes "truthy t"
  shows "\<exists>ys. snd (saveAll e (Array xs) t st) = st\<lparr>calls := calls st @ map (\<lambda>x. Save x t) ys\<rparr>"
  using saveAll_loop_calls [of e xs t st] by (simp add: saveAll_truthy [OF assms])

lemma deleteAll_supplied_transaction:
  assumes "truthy t"
  shows "\<exists>ys. snd (deleteAll e (Array xs) t st) =
           st\<lparr>calls := calls st @ map (\<lambda>x. Delete x t) ys\<rparr>"
  using deleteAll_loop_calls [of e xs t st] by (simp add: deleteAll_truthy [OF assms])

text \<open>
  With no handle, a \<open>saveAll\<close> that is fulfilled has opened one transaction, called
  \<open>save\<close> with its handle on the elements for which \<open>isModelInstance\<close> is true, in the
  order of the array, and called \<open>commit\<close> once, last.
\<close>

lemma saveAll_own_transaction_fulfilled:
  assumes "saveAll e (Array xs) VUndefined st = (Fulfilled, st')"
  shows "calls st' =
           calls st @ OpenTransaction (nextTransaction st) #
           map (\<lambda>x. Save x (VTransaction (nextTransaction st)))
             (filter (\<lambda>x. isModelInstance e x = Inr True) xs) @
           [Commit (nextTransaction st)]"
proof -
  let ?n = "nextTransaction st"
  let ?L = "saveAll_loop e xs (VTransaction ?n) (snd (openTransaction st))"
  have u: "\<not> truthy VUndefined" by simp
  obtain r st2 where L: "?L = (r, st2)" by (cases ?L)
  show ?thesis
  proof (cases r)
    case Fulfilled
    from saveAll_loop_fulfilled [OF L [unfolded Fulfilled]] assms L Fulfilled
    show ?thesis
      by (auto simp: saveAll_falsy [OF u] await_def openTransaction_def split: if_split_asm)
  next
    case (Rejected err)
    with assms L show ?thesis by (simp add: saveAll_falsy [OF u])
  qed
qed

subsection \<open>A batch with a model instance\<close>

text \<open>
  Claim C3 says that \<open>saveAll\<close> with no handle opens one transaction, runs the save of
  every qualified instance against it and calls \<open>commit\<close> on it once. With one order in
  the array, an instance of a registered model class, and no global \<open>isModel\<close>, it
  opens the transaction and is rejected with \<open>ReferenceError\<close> by the test of the
  instance: no \<open>save\<close> is run and \<open>commit\<close> is not called. (The first half of the
  claim, on a handle of the caller's, is \<open>saveAll_supplied_transaction\<close>.)
\<close>

theorem saveAll_own_transaction_reference_error:
  "isObject anOrder \<and> isModel (constructor anOrder) \<and>
   saveAll plainEnv (Array [anOrder]) VUndefined newStore =
     (Rejected ReferenceError,
      newStore\<lparr>calls := [OpenTransaction 0], nextTransaction := 1\<rparr>)"
  by (simp add: saveAll_def defaultNull_def openTransaction_def isModelInstance_def
        plainEnv_def anOrder_def newStore_def isModel_def orderClass_def)

text \<open>
  Claim C5 says that \<open>saveAll\<close> calls \<open>save\<close> on exactly the model instances of a mixed
  array, in order, and skips the other elements without error. With a string, an order,
  \<open>null\<close> and an item in the array and no global \<open>isModel\<close>, the string is skipped and
  the test of the order raises \<open>ReferenceError\<close>: \<open>saveAll\<close> is rejected and has called
  \<open>save\<close> on no element.
\<close>

theorem saveAll_model_instance_reference_error:
  "isModel (constructor anOrder) \<and> isModel (constructor anItem) \<and>
   saveAll plainEnv (Array [VString ''memo'', anOrder, VNull, anItem]) (VTransaction 7) newStore =
     (Rejected ReferenceError, newStore)"
  by (simp add: saveAll_def defaultNull_def isModelInstance_def plainEnv_def anOrder_def
        anItem_def isModel_def orderClass_def itemClass_def)

text \<open>
  Where a global \<open>isModel\<close> is bound to the store's own test, the same array is saved as
  the claim describes.
\<close>

lemma saveAll_model_instances_bound:
  "saveAll boundEnv (Array [VString ''memo'', anOrder, VNull, anItem]) (VTransaction 7) newStore =
     (Fulfilled,
      newStore\<lparr>calls := [Save anOrder (VTransaction 7), Save anItem (VTransaction 7)]\<rparr>)"
  by (simp add: saveAll_def defaultNull_def isModelInstance_def boundEnv_def anOrder_def
        anItem_def isModel_def orderClass_def itemClass_def await_def newStore_def Let_def)

subsection \<open>An empty batch\<close>

text \<open>
  Claim C4, amended. \<open>saveAll([])\<close> and \<open>deleteAll([])\<close> with no transaction argument
  call no \<open>save\<close> and no \<open>delete\<close>, but they are not without effect on the engine: each
  opens one transaction and calls \<open>commit\<close> on it.
\<close>

theorem empty_batch_opens_and_commits:
  "calls (snd (saveAll e (Array []) VUndefined st)) =
     calls st @ [OpenTransaction (nextTransaction st), Commit (nextTransaction st)] \<and>
   calls (snd (deleteAll e (Array []) VUndefined st)) =
     calls st @ [OpenTransaction (nextTransaction st), Commit (nextTransaction st)]"
  by (simp add: saveAll_def deleteAll_def defaultNull_def openTransaction_def await_def)

text \<open>In a new store, the two calls leave a transaction opened and committed.\<close>

theorem empty_batch_not_a_noop:
  "saveAll plainEnv (Array []) VUndefined newStore =
     (Fulfilled, newStore\<lparr>calls := [OpenTransaction 0, Commit 0], nextTransaction := 1\<rparr>) \<and>
   deleteAll plainEnv (Array []) VUndefined newStore =
     (Fulfilled, newStore\<lparr>calls := [OpenTransaction 0, Commit 0], nextTransaction := 1\<rparr>)"
  by (simp add: saveAll_def deleteAll_def defaultNull_def openTransaction_def await_def
        plainEnv_def newStore_def)

subsection \<open>A falsy transaction argument\<close>

lemma saveAll_falsy_calls:
  assumes "\<not> truthy t"
  shows "\<exists>ys. calls (snd (saveAll e (Array xs) t st)) =
           calls st @ OpenTransaction (nextTransaction st) #
           map (\<lambda>x. Save x (VTransaction (nextTransaction st))) ys @
           (if fst (saveAll_loop e xs (VTransaction (nextTransaction st)) (snd (openTransaction st)))
               = Fulfilled
            then [Commit (nextTransaction st)] else [])"
proof -
  let ?n = "nextTransaction st"
  let ?L = "saveAll_loop e xs (VTransaction ?n) (snd (openTransaction st))"
  obtain ys where ys: "snd ?L =
      (snd (openTransaction st))\<lparr>calls := calls (snd (openTransaction st)) @
         map (\<lambda>x. Save x (VTransaction ?n)) ys\<rparr>"
    using saveAll_loop_calls by blast
  have "calls (snd (saveAll e (Array xs) t st)) =
           calls st @ OpenTransaction ?n # map (\<lambda>x. Save x (VTransaction ?n)) ys @
           (if fst ?L = Fulfilled then [Commit ?n] else [])"
  proof (cases ?L)
    case (Pair r st2)
    with ys show ?thesis
      by (cases r) (simp_all add: saveAll_falsy [OF assms] await_def openTransaction_def)
  qed
  then show ?thesis by blast
qed

lemma deleteAll_falsy_calls:
  assumes "\<not> truthy t"
  shows "\<exists>ys. calls (snd (deleteAll e (Array xs) t st)) =
           calls st @ OpenTransaction (nextTransaction st) #
           map (\<lambda>x. Delete x (VTransaction (nextTransaction st))) ys @
           (if fst (deleteAll_loop e xs (VTransaction (nextTransaction st)) (snd (openTransaction st)))
               = Fulfilled
            then [Commit (nextTransaction st)] else [])"
proof -
  let ?n = "nextTransaction st"
  let ?L = "deleteAll_loop e xs (VTransaction ?n) (snd (openTransaction st))"
  obtain ys where ys: "snd ?L =
      (snd (openTransaction st))\<lparr>calls := calls (snd (openTransaction st)) @
         map (\<lambda>x. Delete x (VTransaction ?n)) ys\<rparr>"
    using deleteAll_loop_calls by blast
  have "calls (snd (deleteAll e (Array xs) t st)) =
           calls st @ OpenTransaction ?n # map (\<lambda>x. Delete x (VTransaction ?n)) ys @
           (if fst ?L = Fulfilled then [Commit ?n] else [])"
  proof (cases ?L)
    case (Pair r st2)
    with ys show ?thesis
      by (cases r) (simp_all add: deleteAll_falsy [OF assms] await_def openTransaction_def)
  qed
  then show ?thesis by blast
qed

text \<open>
  Claim C9, amended. \<open>saveAll\<close> and \<open>deleteAll\<close> treat every falsy transaction argument
  as an omitted one. For such an argument and any array they open a transaction of their
  own, every \<open>save\<close> or \<open>delete\<close> they call gets the new handle and never the argument,
  and they call \<open>commit\<close> on the new transaction, once and last, exactly when the loop
  over the array has been fulfilled. Only a truthy argument is used directly: the call
  is then the loop with that handle.
\<close>

theorem falsy_transaction_as_omitted:
  assumes "\<not> truthy t"
  shows "saveAll e (Array xs) t st = saveAll e (Array xs) VUndefined st \<and>
         deleteAll e (Array xs) t st = deleteAll e (Array xs) VUndefined st \<and>
         (\<exists>ys. calls (snd (saveAll e (Array xs) t st)) =
            calls st @ OpenTransaction (nextTransaction st) #
            map (\<lambda>x. Save x (VTransaction (nextTransaction st))) ys @
            (if fst (saveAll_loop e xs (VTransaction (nextTransaction st)) (snd (openTransaction st)))
                = Fulfilled
             then [Commit (nextTransaction st)] else [])) \<and>
         (\<exists>ys. calls (snd (deleteAll e (Array xs) t st)) =
            calls st @ OpenTransaction (nextTransaction st) #
            map (\<lambda>x. Delete x (VTransaction (nextTransaction st))) ys @
            (if fst (deleteAll_loop e xs (VTransaction (nextTransaction st)) (snd (openTransaction st)))
                = Fulfilled
             then [Commit (nextTransaction st)] else [])) \<and>
         (\<forall>h. truthy h \<longrightarrow>
            saveAll e (Array xs) h st = saveAll_loop e xs h st \<and>
            deleteAll e (Array xs) h st = deleteAll_loop e xs h st)"
proof -
  have u: "\<not> truthy VUndefined" by simp
  have "saveAll e (Array xs) t st = saveAll e (Array xs) VUndefined st"
    by (simp only: saveAll_falsy [OF assms] saveAll_falsy [OF u])
  moreover have "deleteAll e (Array xs) t st = deleteAll e (Array xs) VUndefined st"
    by (simp only: deleteAll_falsy [OF assms] deleteAll_falsy [OF u])
  ultimately show ?thesis
    using saveAll_falsy_calls [OF assms, of e xs st] deleteAll_falsy_calls [OF assms, of e xs st]
      saveAll_truthy deleteAll_truthy
    by blast
qed

text \<open>
  The number \<open>0\<close> as the transaction argument: an array of values that are no objects is
  handled as with no argument, in a transaction that is opened and committed.
\<close>

theorem falsy_transaction_as_omitted_witness:
  "\<not> truthy (VNumber 0) \<and>
   saveAll plainEnv (Array [VString ''memo'', VNumber 3]) (VNumber 0) newStore =
     saveAll plainEnv (Array [VString ''memo'', VNumber 3]) VUndefined newStore \<and>
   saveAll plainEnv (Array [VString ''memo'', VNumber 3]) VUndefined newStore =
     (Fulfilled, newStore\<lparr>calls := [OpenTransaction 0, Commit 0], nextTransaction := 1\<rparr>)"
proof -
  have f: "\<not> truthy (VNumber 0)" by simp
  from falsy_transaction_as_omitted [OF f, of plainEnv "[VString ''memo'', VNumber 3]" newStore]
  have "saveAll plainEnv (Array [VString ''memo'', VNumber 3]) (VNumber 0) newStore =
     saveAll plainEnv (Array [VString ''memo'', VNumber 3]) VUndefined newStore"
    by blast
  moreover have "saveAll plainEnv (Array [VString ''memo'', VNumber 3]) VUndefined newStore =
     (Fulfilled, newStore\<lparr>calls := [OpenTransaction 0, Commit 0], nextTransaction := 1\<rparr>)"
    by (simp add: saveAll_def defaultNull_def openTransaction_def isModelInstance_def await_def
          plainEnv_def newStore_def)
  ultimately show ?thesis using f by simp
qed

text \<open>
  That a transaction of its own is always committed fails. With \<open>false\<close> as the argument
  and one order in the array, a \<open>save\<close> that is rejected ends the call before \<open>commit\<close>;
  and where no global \<open>isModel\<close> is bound, the call ends before the \<open>save\<close>.
\<close>

theorem falsy_transaction_commit_not_reached:
  "\<not> truthy (VBoolean False) \<and>
   saveAll rejectingEnv (Array [anOrder]) (VBoolean False) newStore =
     (Rejected Rejection,
      newStore\<lparr>calls := [OpenTransaction 0, Save anOrder (VTransaction 0)],
               nextTransaction := 1\<rparr>) \<and>
   saveAll plainEnv (Array [anOrder]) (VBoolean False) newStore =
     (Rejected ReferenceError, newStore\<lparr>calls := [OpenTransaction 0], nextTransaction := 1\<rparr>)"
  by (simp add: saveAll_def defaultNull_def openTransaction_def isModelInstance_def plainEnv_def
        rejectingEnv_def isModel_def await_def anOrder_def orderClass_def newStore_def)

end
